theory Spec2Isabelle
  imports Main
begin

section \<open>Runtime values\<close>

text \<open>
  The handlers receive their request as a value of TypeScript type \<open>unknown\<close>: whatever
  \<open>JSON.parse\<close> produced. TypeScript's casts (\<open>as string\<close>, \<open>as Record<...>\<close>) are
  erased at run time, so the model keeps such values untyped. Numbers are modelled as
  integers: the code only ever asks whether a number is truthy.
\<close>

datatype jsval =
    JUndefined
  | JNull
  | JBool bool
  | JNum int
  | JStr string
  | JArr "jsval list"
  | JObj "(string \<times> jsval) list"

text \<open>JavaScript truthiness, as used by \<open>!toolName\<close>, \<open>x || {}\<close> and \<open>cwd ? a : b\<close>.\<close>

fun truthy :: "jsval \<Rightarrow> bool" where
  "truthy JUndefined = False"
| "truthy JNull = False"
| "truthy (JBool b) = b"
| "truthy (JNum n) = (n \<noteq> 0)"
| "truthy (JStr s) = (s \<noteq> [])"
| "truthy (JArr xs) = True"
| "truthy (JObj kvs) = True"

text \<open>
  A thrown value: an \<open>Error\<close> instance with its message, or anything else. The top-level
  boundary tells the two apart with \<open>error instanceof Error\<close>.
\<close>

datatype fault = JsError string | NonError

text \<open>
  Reading a property \<open>v.name\<close>. On \<open>undefined\<close> and \<open>null\<close> the read throws a
  \<open>TypeError\<close>; on an object it yields the own property or \<open>undefined\<close>; on the other
  values it yields \<open>undefined\<close> for the names the handlers read (\<open>tool_name\<close>,
  \<open>tool_input\<close>, \<open>cwd\<close>, \<open>session_id\<close>), none of which is inherited or an index.
\<close>

definition typeError :: "string \<Rightarrow> string \<Rightarrow> fault" where
  "typeError what name =
     JsError (''Cannot read properties of '' @ what @ '' (reading '' @ [CHR 0x27] @ name @ [CHR 0x27] @ '')'')"

fun getProp :: "jsval \<Rightarrow> string \<Rightarrow> fault + jsval" where
  "getProp JUndefined name = Inl (typeError ''undefined'' name)"
| "getProp JNull name = Inl (typeError ''null'' name)"
| "getProp (JObj kvs) name = (case map_of kvs name of None \<Rightarrow> Inr JUndefined | Some v \<Rightarrow> Inr v)"
| "getProp v name = Inr JUndefined"

section \<open>Data model (types.ts)\<close>

text \<open>The two-valued decision of \<open>CacheEntrySchema\<close> and \<open>LLMResponseSchema\<close>.\<close>

datatype verdict = VAllow | VDeny

text \<open>The three-valued decision of \<open>DecisionResult\<close> and \<open>LogEntrySchema\<close>.\<close>

datatype decision3 = Allow | Deny | Passthrough

fun of_verdict :: "verdict \<Rightarrow> decision3" where
  "of_verdict VAllow = Allow"
| "of_verdict VDeny = Deny"

datatype decisionSource = Fast | Cache | Llm

record DecisionResult =
  decision :: decision3
  reason :: string

record LLMResponse =
  llm_decision :: verdict
  llm_reason :: string

text \<open>
  \<open>CacheEntrySchema\<close> and \<open>LogEntrySchema\<close>. The tool name and input are kept as the
  handlers pass them on, unchecked; an absent optional field is \<open>None\<close>.
\<close>

record CacheEntry =
  ce_key :: string
  ce_decision :: verdict
  ce_reason :: string
  ce_timestamp :: int
  ce_toolName :: jsval
  ce_toolInput :: "jsval option"
  ce_projectRoot :: "string option"

record LogEntry =
  log_toolName :: jsval
  log_decision :: decision3
  log_reason :: string
  log_decisionSource :: decisionSource
  log_sessionId :: jsval
  log_projectRoot :: "string option"

text \<open>
  \<open>ConfigSchema\<close>. The two fields the policy version guard reads,
  \<open>llm.systemPromptVersion\<close> and \<open>autoUpdateSystemPrompt\<close>, are taken from their use
  in \<open>ensurePromptUpToDate\<close>.
\<close>

record LlmConfig =
  provider :: string
  apiKey :: "string option"
  model :: string
  baseUrl :: "string option"
  systemPrompt :: string
  systemPromptVersion :: int

record CacheConfig =
  cache_enabled :: bool
  ttlHours :: int

record LoggingConfig =
  logging_enabled :: bool
  level :: string

record Config =
  llm :: LlmConfig
  cache :: CacheConfig
  logging :: LoggingConfig
  customAllowPatterns :: "string list"
  customDenyPatterns :: "string list"
  customPassthroughPatterns :: "string list"
  autoUpdateSystemPrompt :: bool

text \<open>
  The result of the fast tier. The handler compares \<open>fastResult.decision\<close> with
  \<open>allow\<close>, \<open>deny\<close> and \<open>passthrough\<close> and falls through on anything else;
  \<open>fastResult.reason\<close> may be absent.
\<close>

datatype fastClass = FAllow | FDeny | FPassthrough | FUnknown

record FastResult =
  fast_decision :: fastClass
  fast_reason :: "string option"

section \<open>The process state and its collaborators\<close>

text \<open>
  Every call of a collaborator that does I/O is recorded, in order, so that "performs no
  cache read" and "performs no I/O" are statements about the recorded calls.
\<close>

datatype call =
    CallLoadConfig
  | CallSaveConfig Config
  | CallClearCache
  | CallGetCachedDecision jsval jsval "string option"
  | CallSetCachedDecision jsval jsval verdict string "string option"
  | CallQueryLLM jsval jsval "string option"
  | CallLogDecision LogEntry

record world =
  promptUpgradeChecked :: bool
  configFile :: Config
  cacheFile :: "(string \<times> CacheEntry) list"
  now :: int
  calls :: "call list"

text \<open>
  What the modules that are not part of the handler contribute: the compiled-in prompt
  and its version, the fast rule matcher, the project root resolver, the arbiter's
  answer, the cache key, the JSON parser, and which collaborator calls raise.
\<close>

record deps =
  CURRENT_SYSTEM_PROMPT_VERSION :: int
  DEFAULT_SYSTEM_PROMPT :: string
  fastRules :: "Config \<Rightarrow> jsval \<Rightarrow> jsval \<Rightarrow> fault + FastResult"
  projectAnchor :: "jsval \<Rightarrow> fault + string option"
  arbiter :: "Config \<Rightarrow> jsval \<Rightarrow> jsval \<Rightarrow> string option \<Rightarrow> fault + LLMResponse"
  cacheKey :: "jsval \<Rightarrow> jsval \<Rightarrow> string option \<Rightarrow> string"
  JSON_parse :: "string \<Rightarrow> fault + jsval"
  io_fault :: "call \<Rightarrow> fault option"

type_synonym 'a io = "world \<Rightarrow> (fault + 'a) \<times> world"

definition ret :: "'a \<Rightarrow> 'a io" where
  "ret x s = (Inr x, s)"

definition bindE :: "'a io \<Rightarrow> ('a \<Rightarrow> 'b io) \<Rightarrow> 'b io" where
  "bindE m f s = (case m s of (Inl e, s') \<Rightarrow> (Inl e, s') | (Inr x, s') \<Rightarrow> f x s')"

definition lift :: "fault + 'a \<Rightarrow> 'a io" where
  "lift r s = (r, s)"

text \<open>
  A collaborator call: it is recorded, then either raises (when \<open>io_fault\<close> says so,
  before any effect) or has its effect and returns.
\<close>

definition io_call :: "deps \<Rightarrow> call \<Rightarrow> (world \<Rightarrow> 'a \<times> world) \<Rightarrow> 'a io" where
  "io_call d c eff s =
     (let s1 = s\<lparr>calls := calls s @ [c]\<rparr> in
      case io_fault d c of
        Some e \<Rightarrow> (Inl e, s1)
      | None \<Rightarrow> (case eff s1 of (x, s2) \<Rightarrow> (Inr x, s2)))"

subsection \<open>config.js\<close>

definition loadConfig :: "deps \<Rightarrow> Config io" where
  \<comment> \<open>Modelled from the spec: config.js is not among the sources. The config document
      is loaded as it stands.\<close>
  "loadConfig d = io_call d CallLoadConfig (\<lambda>s. (configFile s, s))"

definition saveConfig :: "deps \<Rightarrow> Config \<Rightarrow> unit io" where
  \<comment> \<open>Modelled from the spec: config.js is not among the sources. The config document
      is persisted back to disk.\<close>
  "saveConfig d cfg = io_call d (CallSaveConfig cfg) (\<lambda>s. ((), s\<lparr>configFile := cfg\<rparr>))"

subsection \<open>cache.js\<close>

definition clearCache :: "deps \<Rightarrow> nat io" where
  \<comment> \<open>Modelled from the spec: cache.js is not among the sources. \<open>clearAll() -> count\<close>
      empties the store and returns how many entries it held.\<close>
  "clearCache d = io_call d CallClearCache (\<lambda>s. (length (cacheFile s), s\<lparr>cacheFile := []\<rparr>))"

definition fresh :: "world \<Rightarrow> CacheEntry \<Rightarrow> bool" where
  \<comment> \<open>Modelled from the spec: \<open>now - timestamp <= ttlHours * 3600\<close>.\<close>
  "fresh s e = (now s - ce_timestamp e \<le> ttlHours (cache (configFile s)) * 3600)"

definition cacheLookup :: "deps \<Rightarrow> world \<Rightarrow> jsval \<Rightarrow> jsval \<Rightarrow> string option \<Rightarrow> CacheEntry option" where
  \<comment> \<open>Modelled from the spec: a hit requires a key match and a fresh entry; a stale
      entry is a miss.\<close>
  "cacheLookup d s toolName toolInput projectRoot =
     (case map_of (cacheFile s) (cacheKey d toolName toolInput projectRoot) of
        None \<Rightarrow> None
      | Some e \<Rightarrow> if fresh s e then Some e else None)"

definition getCachedDecision :: "deps \<Rightarrow> jsval \<Rightarrow> jsval \<Rightarrow> string option \<Rightarrow> CacheEntry option io" where
  \<comment> \<open>Modelled from the spec: cache.js is not among the sources.\<close>
  "getCachedDecision d toolName toolInput projectRoot =
     io_call d (CallGetCachedDecision toolName toolInput projectRoot)
       (\<lambda>s. (cacheLookup d s toolName toolInput projectRoot, s))"

definition storeEntry :: "string \<Rightarrow> CacheEntry \<Rightarrow> (string \<times> CacheEntry) list \<Rightarrow> (string \<times> CacheEntry) list" where
  \<comment> \<open>Modelled from the spec: overwrite-on-same-key.\<close>
  "storeEntry k e kvs = (k, e) # filter (\<lambda>(k', _). k' \<noteq> k) kvs"

definition setCachedDecision :: "deps \<Rightarrow> jsval \<Rightarrow> jsval \<Rightarrow> verdict \<Rightarrow> string \<Rightarrow> string option \<Rightarrow> unit io" where
  \<comment> \<open>Modelled from the spec: cache.js is not among the sources. \<open>set\<close> overwrites any
      existing entry at the same key; the entry carries the fields of \<open>CacheEntrySchema\<close>.\<close>
  "setCachedDecision d toolName toolInput dec rsn projectRoot =
     io_call d (CallSetCachedDecision toolName toolInput dec rsn projectRoot)
       (\<lambda>s. ((), s\<lparr>cacheFile :=
          storeEntry (cacheKey d toolName toolInput projectRoot)
            \<lparr>ce_key = cacheKey d toolName toolInput projectRoot, ce_decision = dec,
             ce_reason = rsn, ce_timestamp = now s, ce_toolName = toolName,
             ce_toolInput = Some toolInput, ce_projectRoot = projectRoot\<rparr>
            (cacheFile s)\<rparr>))"

subsection \<open>fast-decisions.js, project.js, llm-client.js, logger.js\<close>

definition checkFastDecision :: "deps \<Rightarrow> jsval \<Rightarrow> jsval \<Rightarrow> FastResult io" where
  \<comment> \<open>Modelled from the spec: the classifier is pure and does no I/O; its tables, with
      the user's custom patterns from the config, are the parameter \<open>fastRules\<close>.\<close>
  "checkFastDecision d toolName toolInput s = (fastRules d (configFile s) toolName toolInput, s)"

definition resolveProjectRoot :: "deps \<Rightarrow> jsval \<Rightarrow> string option io" where
  \<comment> \<open>Modelled from the spec: a function of the file system, the parameter
      \<open>projectAnchor\<close>.\<close>
  "resolveProjectRoot d cwd = lift (projectAnchor d cwd)"

definition queryLLM :: "deps \<Rightarrow> jsval \<Rightarrow> jsval \<Rightarrow> string option \<Rightarrow> LLMResponse io" where
  \<comment> \<open>Modelled from the spec: one request to the arbiter under the configured system
      prompt; the call is recorded and the answer is the parameter \<open>arbiter\<close>.\<close>
  "queryLLM d toolName toolInput projectRoot s =
     (arbiter d (configFile s) toolName toolInput projectRoot,
      s\<lparr>calls := calls s @ [CallQueryLLM toolName toolInput projectRoot]\<rparr>)"

definition logDecision :: "deps \<Rightarrow> LogEntry \<Rightarrow> unit io" where
  \<comment> \<open>Modelled from the spec: one audit log record per terminal transition.\<close>
  "logDecision d entry = io_call d (CallLogDecision entry) (\<lambda>s. ((), s))"

section \<open>permission-handler.ts\<close>

text \<open>
  The sources hold two revisions of this module; the model follows the later one, in
  which \<open>resolveDecision\<close> starts with the policy version guard.
\<close>

subsection \<open>The policy version guard\<close>

definition ensurePromptUpToDate :: "deps \<Rightarrow> unit io" where
  "ensurePromptUpToDate d s =
     (if promptUpgradeChecked s then (Inr (), s)
      else
        bindE (loadConfig d) (\<lambda>config.
          if autoUpdateSystemPrompt config \<and>
             systemPromptVersion (llm config) < CURRENT_SYSTEM_PROMPT_VERSION d
          then
            bindE (saveConfig d
                     (config\<lparr>llm := (llm config)
                        \<lparr>systemPrompt := DEFAULT_SYSTEM_PROMPT d,
                         systemPromptVersion := CURRENT_SYSTEM_PROMPT_VERSION d\<rparr>\<rparr>))
              (\<lambda>_. bindE (clearCache d) (\<lambda>_. ret ()))
          else ret ())
        (s\<lparr>promptUpgradeChecked := True\<rparr>))"

subsection \<open>The decision resolver\<close>

text \<open>\<open>x || dflt\<close> on an optional string: the default replaces \<open>undefined\<close> and \<open>""\<close>.\<close>

definition orElse :: "string option \<Rightarrow> string \<Rightarrow> string" where
  "orElse x dflt = (case x of None \<Rightarrow> dflt | Some r \<Rightarrow> if r = [] then dflt else r)"

definition resolveDecision :: "deps \<Rightarrow> jsval \<Rightarrow> jsval \<Rightarrow> jsval \<Rightarrow> jsval \<Rightarrow> DecisionResult io" where
  "resolveDecision d toolName toolInput cwd sessionId =
     bindE (ensurePromptUpToDate d) (\<lambda>_.
     bindE (if truthy cwd then resolveProjectRoot d cwd else ret None) (\<lambda>projectRoot.
     bindE (checkFastDecision d toolName toolInput) (\<lambda>fastResult.
       if fast_decision fastResult = FAllow then
         bindE (logDecision d
                  \<lparr>log_toolName = toolName, log_decision = Allow,
                   log_reason = orElse (fast_reason fastResult) ''Fast allow'',
                   log_decisionSource = Fast, log_sessionId = sessionId,
                   log_projectRoot = projectRoot\<rparr>)
           (\<lambda>_. ret \<lparr>decision = Allow, reason = orElse (fast_reason fastResult) ''Fast allow''\<rparr>)
       else if fast_decision fastResult = FDeny then
         bindE (logDecision d
                  \<lparr>log_toolName = toolName, log_decision = Deny,
                   log_reason = orElse (fast_reason fastResult) ''Fast deny'',
                   log_decisionSource = Fast, log_sessionId = sessionId,
                   log_projectRoot = projectRoot\<rparr>)
           (\<lambda>_. ret \<lparr>decision = Deny,
                      reason = orElse (fast_reason fastResult) ''Blocked by security pattern''\<rparr>)
       else if fast_decision fastResult = FPassthrough then
         bindE (logDecision d
                  \<lparr>log_toolName = toolName, log_decision = Passthrough,
                   log_reason = orElse (fast_reason fastResult) ''Fast passthrough'',
                   log_decisionSource = Fast, log_sessionId = sessionId,
                   log_projectRoot = projectRoot\<rparr>)
           (\<lambda>_. ret \<lparr>decision = Passthrough,
                      reason = orElse (fast_reason fastResult) ''Fast passthrough''\<rparr>)
       else
         bindE (getCachedDecision d toolName toolInput projectRoot) (\<lambda>cached.
           case cached of
             Some c \<Rightarrow>
               bindE (logDecision d
                        \<lparr>log_toolName = toolName, log_decision = of_verdict (ce_decision c),
                         log_reason = ''Cached: '' @ ce_reason c,
                         log_decisionSource = Cache, log_sessionId = sessionId,
                         log_projectRoot = projectRoot\<rparr>)
                 (\<lambda>_. ret \<lparr>decision = of_verdict (ce_decision c), reason = ce_reason c\<rparr>)
           | None \<Rightarrow>
               bindE (queryLLM d toolName toolInput projectRoot) (\<lambda>llmResult.
               bindE (setCachedDecision d toolName toolInput
                        (llm_decision llmResult) (llm_reason llmResult) projectRoot) (\<lambda>_.
               bindE (logDecision d
                        \<lparr>log_toolName = toolName, log_decision = of_verdict (llm_decision llmResult),
                         log_reason = llm_reason llmResult,
                         log_decisionSource = Llm, log_sessionId = sessionId,
                         log_projectRoot = projectRoot\<rparr>)
                 (\<lambda>_. ret \<lparr>decision = of_verdict (llm_decision llmResult),
                            reason = llm_reason llmResult\<rparr>)))))))"

subsection \<open>The PermissionRequest handler\<close>

text \<open>
  \<open>PermissionRequestInputSchema.parse\<close>: the result is \<open>None\<close> where zod throws. A key
  that is absent reads as \<open>undefined\<close>; an optional field accepts \<open>undefined\<close> only, not
  \<open>null\<close>.
  The record parser of \<open>z.record\<close> copies every own key of the object except
  \<open>__proto__\<close>, which it skips.
\<close>

record PermissionRequestInput =
  req_tool_name :: string
  req_tool_input :: "(string \<times> jsval) list"
  req_transcript :: "jsval list option"
  req_session_id :: "string option"
  req_cwd :: "string option"

definition field :: "(string \<times> jsval) list \<Rightarrow> string \<Rightarrow> jsval" where
  "field kvs name = (case map_of kvs name of None \<Rightarrow> JUndefined | Some v \<Rightarrow> v)"

fun zLiteral :: "string \<Rightarrow> jsval \<Rightarrow> unit option" where
  "zLiteral lit (JStr s) = (if s = lit then Some () else None)"
| "zLiteral lit v = None"

fun zString :: "jsval \<Rightarrow> string option" where
  "zString (JStr s) = Some s"
| "zString v = None"

fun zRecord :: "jsval \<Rightarrow> (string \<times> jsval) list option" where
  "zRecord (JObj kvs) = Some (filter (\<lambda>(k, v). k \<noteq> ''__proto__'') kvs)"
| "zRecord v = None"

fun zArray :: "jsval \<Rightarrow> jsval list option" where
  "zArray (JArr xs) = Some xs"
| "zArray v = None"

fun zOptional :: "(jsval \<Rightarrow> 'a option) \<Rightarrow> jsval \<Rightarrow> 'a option option" where
  "zOptional p JUndefined = Some None"
| "zOptional p v = map_option Some (p v)"

definition PermissionRequestInputSchema_parse :: "jsval \<Rightarrow> PermissionRequestInput option" where
  "PermissionRequestInputSchema_parse rawInput =
     (case rawInput of
        JObj kvs \<Rightarrow>
          Option.bind (zLiteral ''PermissionRequest'' (field kvs ''hook_event_name'')) (\<lambda>_.
          Option.bind (zString (field kvs ''tool_name'')) (\<lambda>tn.
          Option.bind (zRecord (field kvs ''tool_input'')) (\<lambda>ti.
          Option.bind (zOptional zArray (field kvs ''transcript'')) (\<lambda>tr.
          Option.bind (zOptional zString (field kvs ''session_id'')) (\<lambda>sid.
          Option.bind (zOptional zString (field kvs ''cwd'')) (\<lambda>wd.
            Some \<lparr>req_tool_name = tn, req_tool_input = ti, req_transcript = tr,
                  req_session_id = sid, req_cwd = wd\<rparr>))))))
      | _ \<Rightarrow> None)"

text \<open>
  \<open>PermissionRequestOutput\<close>: \<open>hookEventName\<close> is the literal \<open>PermissionRequest\<close>, and
  this code never sets \<open>updatedInput\<close>, so the decision's behavior and message remain.
\<close>

record PermissionRequestOutput =
  behavior :: verdict
  message :: "string option"

definition createPermissionAllowResponse :: PermissionRequestOutput where
  "createPermissionAllowResponse = \<lparr>behavior = VAllow, message = None\<rparr>"

definition createPermissionDenyResponse :: "string \<Rightarrow> PermissionRequestOutput" where
  "createPermissionDenyResponse m = \<lparr>behavior = VDeny, message = Some m\<rparr>"

definition optStr :: "string option \<Rightarrow> jsval" where
  "optStr x = (case x of None \<Rightarrow> JUndefined | Some s \<Rightarrow> JStr s)"

text \<open>The result \<open>None\<close> is the handler's \<open>null\<close>: passthrough.\<close>

definition handlePermissionRequest :: "deps \<Rightarrow> jsval \<Rightarrow> PermissionRequestOutput option io" where
  "handlePermissionRequest d rawInput =
     (case PermissionRequestInputSchema_parse rawInput of
        None \<Rightarrow> ret (Some (createPermissionDenyResponse ''Invalid permission request input''))
      | Some input \<Rightarrow>
          bindE (resolveDecision d (JStr (req_tool_name input)) (JObj (req_tool_input input))
                   (optStr (req_cwd input)) (optStr (req_session_id input))) (\<lambda>result.
            if decision result = Allow then ret (Some createPermissionAllowResponse)
            else if decision result = Deny then
              ret (Some (createPermissionDenyResponse (reason result)))
            else ret None))"

subsection \<open>The PreToolUse handler\<close>

record PreToolUseOutput =
  permissionDecision :: verdict
  permissionDecisionReason :: string

definition handlePreToolUse :: "deps \<Rightarrow> jsval \<Rightarrow> PreToolUseOutput option io" where
  "handlePreToolUse d rawInput =
     bindE (lift (getProp rawInput ''tool_name'')) (\<lambda>toolName.
     bindE (lift (getProp rawInput ''tool_input'')) (\<lambda>ti.
     bindE (lift (getProp rawInput ''cwd'')) (\<lambda>cwd.
     bindE (lift (getProp rawInput ''session_id'')) (\<lambda>sessionId.
       if \<not> truthy toolName then
         ret (Some \<lparr>permissionDecision = VDeny,
                     permissionDecisionReason = ''Invalid PreToolUse input: missing tool_name''\<rparr>)
       else
         bindE (resolveDecision d toolName (if truthy ti then ti else JObj []) cwd sessionId)
           (\<lambda>result.
             if decision result = Allow then
               ret (Some \<lparr>permissionDecision = VAllow, permissionDecisionReason = reason result\<rparr>)
             else if decision result = Deny then
               ret (Some \<lparr>permissionDecision = VDeny, permissionDecisionReason = reason result\<rparr>)
             else ret None)))))"

section \<open>The permission command (cli.ts)\<close>

text \<open>
  What the process leaves behind: the responses printed to standard output (each
  \<open>console.log(JSON.stringify(r))\<close> is the response \<open>r\<close>) and its exit code. The action
  ends the process with \<open>process.exit(0)\<close> on passthrough and \<open>process.exit(1)\<close> in its
  \<open>catch\<close>; otherwise it returns and the process ends with code 0.
\<close>

record ProcessOutcome =
  stdout :: "PermissionRequestOutput list"
  exitCode :: nat

definition errorMessage :: "fault \<Rightarrow> string" where
  "errorMessage error = (case error of JsError m \<Rightarrow> m | NonError \<Rightarrow> ''Unknown error'')"

definition permissionAction :: "deps \<Rightarrow> string \<Rightarrow> world \<Rightarrow> ProcessOutcome \<times> world" where
  "permissionAction d rawInput s =
     (case bindE (lift (JSON_parse d rawInput)) (handlePermissionRequest d) s of
        (Inr None, s') \<Rightarrow> (\<lparr>stdout = [], exitCode = 0\<rparr>, s')
      | (Inr (Some result), s') \<Rightarrow> (\<lparr>stdout = [result], exitCode = 0\<rparr>, s')
      | (Inl error, s') \<Rightarrow>
          (\<lparr>stdout = [\<lparr>behavior = VDeny,
                        message = Some (''Hook error: '' @ errorMessage error)\<rparr>],
            exitCode = 1\<rparr>, s'))"

section \<open>Recorded calls\<close>

text \<open>The calls a run adds to the record: those of the final state that the initial one lacks.\<close>

definition newCalls :: "world \<Rightarrow> world \<Rightarrow> call list" where
  "newCalls s s' = drop (length (calls s)) (calls s')"

fun isCacheRead :: "call \<Rightarrow> bool" where
  "isCacheRead (CallGetCachedDecision t i p) = True"
| "isCacheRead c = False"

fun isCacheWrite :: "call \<Rightarrow> bool" where
  "isCacheWrite (CallSetCachedDecision t i v r p) = True"
| "isCacheWrite c = False"

fun isLLMCall :: "call \<Rightarrow> bool" where
  "isLLMCall (CallQueryLLM t i p) = True"
| "isLLMCall c = False"

section \<open>Example inputs\<close>

definition exampleConfig :: Config where
  "exampleConfig =
     \<lparr>llm = \<lparr>provider = ''openrouter'', apiKey = None, model = ''gpt-4o-mini'', baseUrl = None,
             systemPrompt = ''policy v1'', systemPromptVersion = 1\<rparr>,
      cache = \<lparr>cache_enabled = True, ttlHours = 168\<rparr>,
      logging = \<lparr>logging_enabled = True, level = ''info''\<rparr>,
      customAllowPatterns = [], customDenyPatterns = [], customPassthroughPatterns = [],
      autoUpdateSystemPrompt = True\<rparr>"

definition exampleEntry :: CacheEntry where
  "exampleEntry =
     \<lparr>ce_key = ''Bash|/other'', ce_decision = VAllow, ce_reason = ''harmless'',
      ce_timestamp = 900, ce_toolName = JStr ''Bash'',
      ce_toolInput = Some (JObj [(''command'', JStr ''ls'')]),
      ce_projectRoot = Some ''/other''\<rparr>"

text \<open>
  A well-formed request as it arrives on standard input, and the value it parses to:
  \<^verbatim>\<open>{"hook_event_name":"PermissionRequest","tool_name":"Bash",
   "tool_input":{"command":"git push origin main"},"cwd":"/repo"}\<close>
\<close>

definition quoted :: "string \<Rightarrow> string" where
  "quoted str = CHR 0x22 # str @ [CHR 0x22]"

definition pushRequestText :: string where
  "pushRequestText =
     ''{'' @ quoted ''hook_event_name'' @ '':'' @ quoted ''PermissionRequest'' @ '','' @
     quoted ''tool_name'' @ '':'' @ quoted ''Bash'' @ '','' @
     quoted ''tool_input'' @ '':{'' @ quoted ''command'' @ '':'' @
     quoted ''git push origin main'' @ ''},'' @
     quoted ''cwd'' @ '':'' @ quoted ''/repo'' @ ''}''"

definition pushRequest :: jsval where
  "pushRequest =
     JObj [(''hook_event_name'', JStr ''PermissionRequest''), (''tool_name'', JStr ''Bash''),
           (''tool_input'', JObj [(''command'', JStr ''git push origin main'')]),
           (''cwd'', JStr ''/repo'')]"

definition exampleDeps :: deps where
  "exampleDeps =
     \<lparr>CURRENT_SYSTEM_PROMPT_VERSION = 2,
      DEFAULT_SYSTEM_PROMPT = ''policy v2'',
      fastRules = (\<lambda>cfg t i.
        if t = JStr ''Read'' then Inr \<lparr>fast_decision = FAllow, fast_reason = Some ''Read-only tool''\<rparr>
        else Inr \<lparr>fast_decision = FUnknown, fast_reason = None\<rparr>),
      projectAnchor = (\<lambda>wd. case wd of JStr p \<Rightarrow> Inr (Some p) | _ \<Rightarrow> Inr None),
      arbiter = (\<lambda>cfg t i p. Inr \<lparr>llm_decision = VAllow, llm_reason = ''non-protected branch''\<rparr>),
      cacheKey = (\<lambda>t i p. (case t of JStr n \<Rightarrow> n | _ \<Rightarrow> []) @ ''|'' @
                           (case p of Some r \<Rightarrow> r | None \<Rightarrow> [])),
      JSON_parse = (\<lambda>txt. if txt = ''{}'' then Inr (JObj [])
                          else if txt = pushRequestText then Inr pushRequest
                          else Inl (JsError ''Unexpected token'')),
      io_fault = (\<lambda>c. None)\<rparr>"

definition exampleWorld :: world where
  "exampleWorld =
     \<lparr>promptUpgradeChecked = False, configFile = exampleConfig,
      cacheFile = [(''Bash|/other'', exampleEntry)], now = 1000, calls = []\<rparr>"

text \<open>The same process with automatic prompt updates switched off in its config.\<close>

definition pinnedWorld :: world where
  "pinnedWorld = exampleWorld\<lparr>configFile := exampleConfig\<lparr>autoUpdateSystemPrompt := False\<rparr>\<rparr>"

text \<open>A process that has already run the guard and whose config is current.\<close>

definition settledWorld :: world where
  "settledWorld =
     exampleWorld\<lparr>promptUpgradeChecked := True,
       configFile := exampleConfig\<lparr>llm := (llm exampleConfig)\<lparr>systemPromptVersion := 2\<rparr>\<rparr>\<rparr>"

text \<open>A settled process whose cache holds a fresh decision for the request below.\<close>

definition repoEntry :: CacheEntry where
  "repoEntry =
     \<lparr>ce_key = ''Bash|/repo'', ce_decision = VDeny, ce_reason = ''pushes to main'',
      ce_timestamp = 900, ce_toolName = JStr ''Bash'',
      ce_toolInput = Some (JObj [(''command'', JStr ''git push origin main'')]),
      ce_projectRoot = Some ''/repo''\<rparr>"

definition cachedWorld :: world where
  "cachedWorld = settledWorld\<lparr>cacheFile := [(''Bash|/repo'', repoEntry)]\<rparr>"

text \<open>The same collaborators, with an arbiter that raises instead of answering.\<close>

definition faultyDeps :: deps where
  "faultyDeps = exampleDeps\<lparr>arbiter := (\<lambda>cfg t i p. Inl (JsError ''socket hang up''))\<rparr>"

section \<open>The policy version guard\<close>

lemmas example_defs =
  exampleWorld_def exampleDeps_def exampleConfig_def exampleEntry_def settledWorld_def
  cachedWorld_def repoEntry_def pinnedWorld_def

lemmas guard_defs =
  ensurePromptUpToDate_def bindE_def loadConfig_def saveConfig_def clearCache_def
  io_call_def ret_def Let_def

lemma ensurePromptUpToDate_checked:
  "promptUpgradeChecked s \<Longrightarrow> ensurePromptUpToDate d s = (Inr (), s)"
  by (simp add: ensurePromptUpToDate_def)

lemma ensurePromptUpToDate_sets_flag:
  "promptUpgradeChecked (snd (ensurePromptUpToDate d s))"
  by (auto simp: ensurePromptUpToDate_def bindE_def loadConfig_def saveConfig_def clearCache_def
      io_call_def ret_def Let_def split: option.splits prod.splits sum.splits)

text \<open>
  Claim C1, as stated: whenever the configured version is below the compiled-in one, the
  first call of the guard upgrades the config and clears the cache. The guard has a
  second condition, \<open>config.autoUpdateSystemPrompt\<close>: in a process whose config switches
  it off, the first call loads the config and stops there. The stored version stays
  below the current one, nothing is saved, and the cached entry of an unrelated request
  is still served.
\<close>

theorem ensurePromptUpToDate_pinned_counterexample:
  "\<not> promptUpgradeChecked pinnedWorld \<and>
   systemPromptVersion (llm (configFile pinnedWorld)) < CURRENT_SYSTEM_PROMPT_VERSION exampleDeps \<and>
   fst (ensurePromptUpToDate exampleDeps pinnedWorld) = Inr () \<and>
   configFile (snd (ensurePromptUpToDate exampleDeps pinnedWorld)) = configFile pinnedWorld \<and>
   systemPromptVersion (llm (configFile (snd (ensurePromptUpToDate exampleDeps pinnedWorld)))) = 1 \<and>
   newCalls pinnedWorld (snd (ensurePromptUpToDate exampleDeps pinnedWorld)) = [CallLoadConfig] \<and>
   map_of (cacheFile (snd (ensurePromptUpToDate exampleDeps pinnedWorld))) ''Bash|/other'' =
     Some exampleEntry \<and>
   cacheLookup exampleDeps (snd (ensurePromptUpToDate exampleDeps pinnedWorld))
     (JStr ''Bash'') (JObj [(''command'', JStr ''ls'')]) (Some ''/other'') = Some exampleEntry"
  by (simp add: pinnedWorld_def exampleWorld_def exampleDeps_def exampleConfig_def exampleEntry_def
      ensurePromptUpToDate_def bindE_def loadConfig_def saveConfig_def clearCache_def
      io_call_def ret_def Let_def newCalls_def cacheLookup_def fresh_def)

text \<open>
  Claim C1, amended: in every process state in which the guard has not run yet,
  \<open>autoUpdateSystemPrompt\<close> is on and the configured version is strictly below the
  compiled-in one, the first call of the guard (its load, save and clear not raising)
  returns normally, having made exactly three calls: it loads the config, saves it with
  the current prompt and version, and clears the cache. Afterwards the store is empty
  and the lookup of every request, whatever its tool, input and project root, is a miss.
  In every state in which the guard has not run yet and \<open>autoUpdateSystemPrompt\<close> is
  off, the first call only loads the config: that is its one call, it sets the
  once-per-process flag, and it leaves the config and the cache as they were, so every
  lookup answers as before.
\<close>

theorem ensurePromptUpToDate_upgrades:
  "(\<not> promptUpgradeChecked s \<and>
    autoUpdateSystemPrompt (configFile s) \<and>
    systemPromptVersion (llm (configFile s)) < CURRENT_SYSTEM_PROMPT_VERSION d \<and>
    io_fault d CallLoadConfig = None \<and>
    (\<forall>cfg. io_fault d (CallSaveConfig cfg) = None) \<and>
    io_fault d CallClearCache = None \<longrightarrow>
      (let s' = snd (ensurePromptUpToDate d s) in
         fst (ensurePromptUpToDate d s) = Inr () \<and>
         systemPrompt (llm (configFile s')) = DEFAULT_SYSTEM_PROMPT d \<and>
         systemPromptVersion (llm (configFile s')) = CURRENT_SYSTEM_PROMPT_VERSION d \<and>
         newCalls s s' = [CallLoadConfig, CallSaveConfig (configFile s'), CallClearCache] \<and>
         cacheFile s' = [] \<and>
         (\<forall>toolName toolInput projectRoot.
            cacheLookup d s' toolName toolInput projectRoot = None))) \<and>
   (\<not> promptUpgradeChecked s \<and> \<not> autoUpdateSystemPrompt (configFile s) \<longrightarrow>
      ensurePromptUpToDate d s =
        ((case io_fault d CallLoadConfig of None \<Rightarrow> Inr () | Some e \<Rightarrow> Inl e),
         s\<lparr>promptUpgradeChecked := True, calls := calls s @ [CallLoadConfig]\<rparr>) \<and>
      newCalls s (snd (ensurePromptUpToDate d s)) = [CallLoadConfig] \<and>
      configFile (snd (ensurePromptUpToDate d s)) = configFile s \<and>
      cacheFile (snd (ensurePromptUpToDate d s)) = cacheFile s \<and>
      (\<forall>toolName toolInput projectRoot.
         cacheLookup d (snd (ensurePromptUpToDate d s)) toolName toolInput projectRoot =
         cacheLookup d s toolName toolInput projectRoot))"
  by (auto simp: ensurePromptUpToDate_def bindE_def loadConfig_def saveConfig_def clearCache_def
      io_call_def ret_def Let_def newCalls_def cacheLookup_def fresh_def split: option.splits)

theorem ensurePromptUpToDate_upgrades_witness:
  "\<not> promptUpgradeChecked exampleWorld \<and>
   autoUpdateSystemPrompt (configFile exampleWorld) \<and>
   systemPromptVersion (llm (configFile exampleWorld)) < CURRENT_SYSTEM_PROMPT_VERSION exampleDeps \<and>
   io_fault exampleDeps CallLoadConfig = None \<and>
   (\<forall>cfg. io_fault exampleDeps (CallSaveConfig cfg) = None) \<and>
   io_fault exampleDeps CallClearCache = None \<and>
   map_of (cacheFile exampleWorld) ''Bash|/other'' = Some exampleEntry \<and>
   fst (ensurePromptUpToDate exampleDeps exampleWorld) = Inr () \<and>
   systemPromptVersion (llm (configFile (snd (ensurePromptUpToDate exampleDeps exampleWorld)))) = 2 \<and>
   cacheFile (snd (ensurePromptUpToDate exampleDeps exampleWorld)) = [] \<and>
   cacheLookup exampleDeps (snd (ensurePromptUpToDate exampleDeps exampleWorld))
     (JStr ''Bash'') (JObj [(''command'', JStr ''ls'')]) (Some ''/other'') = None \<and>
   \<not> promptUpgradeChecked pinnedWorld \<and>
   \<not> autoUpdateSystemPrompt (configFile pinnedWorld) \<and>
   ensurePromptUpToDate exampleDeps pinnedWorld =
     (Inr (), pinnedWorld\<lparr>promptUpgradeChecked := True, calls := [CallLoadConfig]\<rparr>) \<and>
   configFile (snd (ensurePromptUpToDate exampleDeps pinnedWorld)) = configFile pinnedWorld \<and>
   cacheFile (snd (ensurePromptUpToDate exampleDeps pinnedWorld)) = cacheFile pinnedWorld"
  using ensurePromptUpToDate_upgrades [of exampleWorld exampleDeps]
    ensurePromptUpToDate_upgrades [of pinnedWorld exampleDeps]
  by (simp add: pinnedWorld_def exampleWorld_def exampleDeps_def exampleConfig_def Let_def)

text \<open>
  Claim C8: the guard does its work at most once per process. Whatever the first call
  does, and also when one of its collaborators raises, it leaves the flag
  \<open>promptUpgradeChecked\<close> set; and in every state with the flag set a call returns at
  once with the state unchanged: the same config, the same cache, no call recorded.
  Nothing in the module clears the flag.
\<close>

theorem ensurePromptUpToDate_once:
  "promptUpgradeChecked (snd (ensurePromptUpToDate d s)) \<and>
   (\<forall>s'. promptUpgradeChecked s' \<longrightarrow> ensurePromptUpToDate d s' = (Inr (), s'))"
  using ensurePromptUpToDate_sets_flag ensurePromptUpToDate_checked by blast

theorem ensurePromptUpToDate_once_witness:
  "promptUpgradeChecked (snd (ensurePromptUpToDate exampleDeps exampleWorld)) \<and>
   promptUpgradeChecked settledWorld \<and>
   ensurePromptUpToDate exampleDeps settledWorld = (Inr (), settledWorld)"
  using ensurePromptUpToDate_once [of exampleDeps exampleWorld]
  by (simp add: settledWorld_def exampleWorld_def)

section \<open>The decision resolver\<close>

lemma newCalls_append: "calls s' = calls s @ g \<Longrightarrow> newCalls s s' = g"
  by (simp add: newCalls_def)

lemma fresh_calls: "fresh (s\<lparr>calls := cs\<rparr>) e = fresh s e"
  by (simp add: fresh_def)

lemma cacheLookup_calls: "cacheLookup d (s\<lparr>calls := cs\<rparr>) t i p = cacheLookup d s t i p"
  by (simp add: cacheLookup_def fresh_calls split: option.splits)

lemma logDecision_run:
  "logDecision d e s =
     ((case io_fault d (CallLogDecision e) of Some x \<Rightarrow> Inl x | None \<Rightarrow> Inr ()),
      s\<lparr>calls := calls s @ [CallLogDecision e]\<rparr>)"
  by (simp add: logDecision_def io_call_def Let_def split: option.splits)

lemma getCachedDecision_run:
  "getCachedDecision d t i p s =
     ((case io_fault d (CallGetCachedDecision t i p) of
         Some x \<Rightarrow> Inl x | None \<Rightarrow> Inr (cacheLookup d s t i p)),
      s\<lparr>calls := calls s @ [CallGetCachedDecision t i p]\<rparr>)"
  by (simp add: getCachedDecision_def io_call_def Let_def cacheLookup_calls split: option.splits)

lemma guard_calls:
  "\<exists>g. calls (snd (ensurePromptUpToDate d s)) = calls s @ g \<and>
       filter isCacheRead g = [] \<and> filter isCacheWrite g = [] \<and> filter isLLMCall g = []"
  by (auto simp: ensurePromptUpToDate_def bindE_def loadConfig_def saveConfig_def clearCache_def
      io_call_def ret_def Let_def split: option.splits prod.splits sum.splits)

lemma guard_cache:
  "cacheFile (snd (ensurePromptUpToDate d s)) = cacheFile s \<or>
   cacheFile (snd (ensurePromptUpToDate d s)) = []"
  by (auto simp: ensurePromptUpToDate_def bindE_def loadConfig_def saveConfig_def clearCache_def
      io_call_def ret_def Let_def split: option.splits prod.splits sum.splits)


lemma setCachedDecision_run:
  "setCachedDecision d t i v r p s =
     (case io_fault d (CallSetCachedDecision t i v r p) of
        Some x \<Rightarrow> (Inl x, s\<lparr>calls := calls s @ [CallSetCachedDecision t i v r p]\<rparr>)
      | None \<Rightarrow>
          (Inr (),
           s\<lparr>calls := calls s @ [CallSetCachedDecision t i v r p],
             cacheFile := storeEntry (cacheKey d t i p)
               \<lparr>ce_key = cacheKey d t i p, ce_decision = v, ce_reason = r,
                ce_timestamp = now s, ce_toolName = t, ce_toolInput = Some i,
                ce_projectRoot = p\<rparr> (cacheFile s)\<rparr>))"
  by (simp add: setCachedDecision_def io_call_def Let_def split: option.splits)

lemma map_of_storeEntry: "map_of (storeEntry k e kvs) k = Some e"
  by (simp add: storeEntry_def)


lemmas resolve_unfold =
  resolveDecision_def bindE_def Let_def newCalls_def resolveProjectRoot_def
  lift_def ret_def checkFastDecision_def logDecision_run getCachedDecision_run
  setCachedDecision_run queryLLM_def

lemma resolveDecision_shape:
  assumes g1: "ensurePromptUpToDate d s = (r1, s1)"
  shows
   "(\<exists>h. calls (snd (resolveDecision d toolName toolInput cwd sessionId s)) = calls s1 @ h \<and>
         filter isLLMCall h = [] \<and> filter isCacheWrite h = [] \<and>
         cacheFile (snd (resolveDecision d toolName toolInput cwd sessionId s)) = cacheFile s1) \<or>
    (\<exists>pr h. calls (snd (resolveDecision d toolName toolInput cwd sessionId s)) =
               calls s1 @ CallGetCachedDecision toolName toolInput pr #
                 CallQueryLLM toolName toolInput pr # h \<and>
         (case fst (resolveDecision d toolName toolInput cwd sessionId s) of
            Inl e \<Rightarrow> True
          | Inr r \<Rightarrow> filter isCacheWrite h \<noteq> [] \<and> decision r \<noteq> Passthrough))"
proof (cases r1)
  case (Inl e)
  with g1 show ?thesis
    by (simp add: resolve_unfold)
next
  case (Inr u)
  note r1 = this
  show ?thesis
  proof (cases "if truthy cwd then projectAnchor d cwd else Inr None")
    case (Inl e)
    with g1 r1 show ?thesis
      by (auto simp: resolve_unfold split: if_splits option.splits)
  next
    case (Inr pr)
    note root = this
    show ?thesis
    proof (cases "fastRules d (configFile s1) toolName toolInput")
      case (Inl e)
      with g1 r1 root show ?thesis
        by (auto simp: resolve_unfold split: if_splits option.splits)
    next
      case (Inr fr)
      note fast = this
      show ?thesis
      proof (cases "fast_decision fr = FUnknown")
        case False
        then consider "fast_decision fr = FAllow" | "fast_decision fr = FDeny"
          | "fast_decision fr = FPassthrough"
          by (cases "fast_decision fr") auto
        then show ?thesis
        proof cases
          case 1
          with g1 r1 root fast show ?thesis
            by (auto simp: resolve_unfold split: if_splits option.splits)
        next
          case 2
          with g1 r1 root fast show ?thesis
            by (auto simp: resolve_unfold split: if_splits option.splits)
        next
          case 3
          with g1 r1 root fast show ?thesis
            by (auto simp: resolve_unfold split: if_splits option.splits)
        qed
      next
        case True
        note unk = this
        show ?thesis
        proof (cases "io_fault d (CallGetCachedDecision toolName toolInput pr)")
          case (Some x)
          with g1 r1 root fast unk show ?thesis
            by (auto simp: resolve_unfold split: if_splits option.splits)
        next
          case None
          note get = this
          show ?thesis
          proof (cases "cacheLookup d s1 toolName toolInput pr")
            case (Some c)
            with g1 r1 root fast unk get show ?thesis
              by (auto simp: resolve_unfold split: if_splits option.splits)
          next
            case None
            note miss = this
            show ?thesis
            proof (cases "arbiter d (configFile s1) toolName toolInput pr")
              case (Inl e)
              with g1 r1 root fast unk get miss show ?thesis
                by (auto simp: resolve_unfold split: if_splits option.splits)
            next
              case (Inr l)
              note llm = this
              have nv: "of_verdict (llm_decision l) \<noteq> Passthrough"
                by (cases "llm_decision l") auto
              show ?thesis
              proof (cases "io_fault d (CallSetCachedDecision toolName toolInput
                               (llm_decision l) (llm_reason l) pr)")
                case (Some x)
                with g1 r1 root fast unk get miss llm show ?thesis
                  by (auto simp: resolve_unfold split: if_splits option.splits)
              next
                case None
                with g1 r1 root fast unk get miss llm nv show ?thesis
                  by (auto simp: resolve_unfold split: if_splits option.splits)
              qed
            qed
          qed
        qed
      qed
    qed
  qed
qed

lemma resolveDecision_llm_tier:
  assumes guard: "fst (ensurePromptUpToDate d s) = Inr ()"
    and root: "(if truthy cwd then projectAnchor d cwd else Inr None) = Inr projectRoot"
    and fast: "fastRules d (configFile (snd (ensurePromptUpToDate d s))) toolName toolInput = Inr fr"
    and dec: "fast_decision fr = FUnknown"
    and get: "io_fault d (CallGetCachedDecision toolName toolInput projectRoot) = None"
    and miss: "cacheLookup d (snd (ensurePromptUpToDate d s)) toolName toolInput projectRoot = None"
    and llm: "arbiter d (configFile (snd (ensurePromptUpToDate d s))) toolName toolInput projectRoot = Inr l"
  shows "let run = resolveDecision d toolName toolInput cwd sessionId s;
             s1 = snd (ensurePromptUpToDate d s); s' = snd run in
    take 3 (newCalls s1 s') =
      [CallGetCachedDecision toolName toolInput projectRoot,
       CallQueryLLM toolName toolInput projectRoot,
       CallSetCachedDecision toolName toolInput (llm_decision l) (llm_reason l) projectRoot] \<and>
    (io_fault d (CallSetCachedDecision toolName toolInput (llm_decision l) (llm_reason l) projectRoot) = None \<longrightarrow>
       map_of (cacheFile s') (cacheKey d toolName toolInput projectRoot) =
         Some \<lparr>ce_key = cacheKey d toolName toolInput projectRoot,
               ce_decision = llm_decision l, ce_reason = llm_reason l,
               ce_timestamp = now s, ce_toolName = toolName,
               ce_toolInput = Some toolInput, ce_projectRoot = projectRoot\<rparr> \<and>
       drop 3 (newCalls s1 s') =
         [CallLogDecision
            \<lparr>log_toolName = toolName, log_decision = of_verdict (llm_decision l),
             log_reason = llm_reason l, log_decisionSource = Llm,
             log_sessionId = sessionId, log_projectRoot = projectRoot\<rparr>] \<and>
       ((\<forall>e. io_fault d (CallLogDecision e) = None) \<longrightarrow>
          fst run = Inr \<lparr>decision = of_verdict (llm_decision l), reason = llm_reason l\<rparr>))"
proof -
  obtain r1 s1 where g1: "ensurePromptUpToDate d s = (r1, s1)"
    by (cases "ensurePromptUpToDate d s")
  from guard_calls [of d s] g1 obtain g where
    g: "calls s1 = calls s @ g"
    by auto
  have n: "now s1 = now s"
    using g1
    by (auto simp: ensurePromptUpToDate_def bindE_def loadConfig_def saveConfig_def clearCache_def
      io_call_def ret_def Let_def split: option.splits prod.splits sum.splits if_splits)
  from guard g1 have r1: "r1 = Inr ()" by simp
  from fast g1 have fast1: "fastRules d (configFile s1) toolName toolInput = Inr fr" by simp
  from miss g1 have miss1: "cacheLookup d s1 toolName toolInput projectRoot = None" by simp
  from llm g1 have llm1: "arbiter d (configFile s1) toolName toolInput projectRoot = Inr l" by simp
  from g1 r1 g root fast1 dec get miss1 llm1 n show ?thesis
    by (auto simp: resolve_unfold map_of_storeEntry split: if_splits option.splits)
qed

lemma resolveDecision_no_llm:
  assumes "filter isLLMCall (newCalls s (snd (resolveDecision d toolName toolInput cwd sessionId s))) = []"
  shows "filter isCacheWrite (newCalls s (snd (resolveDecision d toolName toolInput cwd sessionId s))) = [] \<and>
         cacheFile (snd (resolveDecision d toolName toolInput cwd sessionId s)) =
           cacheFile (snd (ensurePromptUpToDate d s))"
proof -
  obtain r1 s1 where g1: "ensurePromptUpToDate d s = (r1, s1)"
    by (cases "ensurePromptUpToDate d s")
  from guard_calls [of d s] g1 obtain g where
    g: "calls s1 = calls s @ g" "filter isCacheWrite g = []" "filter isLLMCall g = []"
    by auto
  from resolveDecision_shape [OF g1, of toolName toolInput cwd sessionId] assms g g1
  show ?thesis
    by (auto simp: newCalls_def)
qed

lemma resolveDecision_returned:
  assumes "fst (resolveDecision d toolName toolInput cwd sessionId s) = Inr r"
  shows "((filter isCacheWrite (newCalls s (snd (resolveDecision d toolName toolInput cwd sessionId s))) = []) =
          (filter isLLMCall (newCalls s (snd (resolveDecision d toolName toolInput cwd sessionId s))) = [])) \<and>
         (decision r = Passthrough \<longrightarrow>
          filter isCacheWrite (newCalls s (snd (resolveDecision d toolName toolInput cwd sessionId s))) = [])"
proof -
  obtain r1 s1 where g1: "ensurePromptUpToDate d s = (r1, s1)"
    by (cases "ensurePromptUpToDate d s")
  from guard_calls [of d s] g1 obtain g where
    g: "calls s1 = calls s @ g" "filter isCacheWrite g = []" "filter isLLMCall g = []"
    by auto
  from resolveDecision_shape [OF g1, of toolName toolInput cwd sessionId] assms g g1
  show ?thesis
    by (auto simp: newCalls_def)
qed

text \<open>
  Claim C2: when the fast tier classifies a request as allow, deny or passthrough (under
  the config the guard leaves behind), a resolution records no call of
  \<open>getCachedDecision\<close>, \<open>setCachedDecision\<close> or \<open>queryLLM\<close> and leaves the cache
  as the guard left it, whether or not a collaborator raises. Where the guard and the
  project root resolver return and the logger does not raise, it returns exactly the
  fast tier's decision, and the one call it makes after the guard is the log record,
  with decision source \<open>fast\<close>.
\<close>

theorem resolveDecision_fast:
  assumes fast: "fastRules d (configFile (snd (ensurePromptUpToDate d s))) toolName toolInput = Inr fr"
    and dec: "fast_decision fr \<noteq> FUnknown"
  shows "let run = resolveDecision d toolName toolInput cwd sessionId s;
             s1 = snd (ensurePromptUpToDate d s); s' = snd run in
    filter isCacheRead (newCalls s s') = [] \<and>
    filter isCacheWrite (newCalls s s') = [] \<and>
    filter isLLMCall (newCalls s s') = [] \<and>
    cacheFile s' = cacheFile s1 \<and>
    (fst (ensurePromptUpToDate d s) = Inr () \<and>
     (if truthy cwd then projectAnchor d cwd else Inr None) = Inr projectRoot \<and>
     (\<forall>e. io_fault d (CallLogDecision e) = None) \<longrightarrow>
       fst run =
         Inr \<lparr>decision = (case fast_decision fr of FAllow \<Rightarrow> Allow | FDeny \<Rightarrow> Deny
                           | _ \<Rightarrow> Passthrough),
              reason = orElse (fast_reason fr)
                 (case fast_decision fr of FAllow \<Rightarrow> ''Fast allow''
                  | FDeny \<Rightarrow> ''Blocked by security pattern'' | _ \<Rightarrow> ''Fast passthrough'')\<rparr> \<and>
       newCalls s1 s' =
         [CallLogDecision
            \<lparr>log_toolName = toolName,
             log_decision = (case fast_decision fr of FAllow \<Rightarrow> Allow | FDeny \<Rightarrow> Deny
                             | _ \<Rightarrow> Passthrough),
             log_reason = orElse (fast_reason fr)
                 (case fast_decision fr of FAllow \<Rightarrow> ''Fast allow''
                  | FDeny \<Rightarrow> ''Fast deny'' | _ \<Rightarrow> ''Fast passthrough''),
             log_decisionSource = Fast, log_sessionId = sessionId,
             log_projectRoot = projectRoot\<rparr>])"
proof -
  obtain r1 s1 where guard: "ensurePromptUpToDate d s = (r1, s1)"
    by (cases "ensurePromptUpToDate d s")
  from guard_calls [of d s] guard obtain g where
    g: "calls s1 = calls s @ g" "filter isCacheRead g = []" "filter isCacheWrite g = []"
       "filter isLLMCall g = []"
    by auto
  from fast guard have fast1: "fastRules d (configFile s1) toolName toolInput = Inr fr"
    by simp
  show ?thesis
  proof (cases r1)
    case (Inl e)
    with guard g show ?thesis
      by (simp add: resolveDecision_def bindE_def Let_def newCalls_def)
  next
    case (Inr u)
    show ?thesis
    proof (cases "if truthy cwd then projectAnchor d cwd else Inr None")
      case (Inl e)
      with guard g Inr show ?thesis
        by (auto simp: resolve_unfold split: if_splits)
    next
      case root: (Inr pr)
      from dec consider "fast_decision fr = FAllow" | "fast_decision fr = FDeny"
        | "fast_decision fr = FPassthrough"
        by (cases "fast_decision fr") auto
      then show ?thesis
      proof cases
        case 1
        with guard g Inr root fast1 show ?thesis
          by (auto simp: resolve_unfold split: if_splits option.splits)
      next
        case 2
        with guard g Inr root fast1 show ?thesis
          by (auto simp: resolve_unfold split: if_splits option.splits)
      next
        case 3
        with guard g Inr root fast1 show ?thesis
          by (auto simp: resolve_unfold split: if_splits option.splits)
      qed
    qed
  qed
qed

theorem resolveDecision_fast_witness:
  "fastRules exampleDeps (configFile (snd (ensurePromptUpToDate exampleDeps exampleWorld)))
      (JStr ''Read'') (JObj [(''file_path'', JStr ''/repo/a.txt'')]) =
     Inr \<lparr>fast_decision = FAllow, fast_reason = Some ''Read-only tool''\<rparr> \<and>
   fast_decision \<lparr>fast_decision = FAllow, fast_reason = Some ''Read-only tool''\<rparr> \<noteq> FUnknown \<and>
   fst (ensurePromptUpToDate exampleDeps exampleWorld) = Inr () \<and>
   (if truthy (JStr ''/repo'') then projectAnchor exampleDeps (JStr ''/repo'') else Inr None) =
     Inr (Some ''/repo'') \<and>
   (\<forall>e. io_fault exampleDeps (CallLogDecision e) = None) \<and>
   fst (resolveDecision exampleDeps (JStr ''Read'') (JObj [(''file_path'', JStr ''/repo/a.txt'')])
          (JStr ''/repo'') (JStr ''session-1'') exampleWorld) =
     Inr \<lparr>decision = Allow, reason = ''Read-only tool''\<rparr> \<and>
   filter isCacheRead (newCalls exampleWorld
     (snd (resolveDecision exampleDeps (JStr ''Read'') (JObj [(''file_path'', JStr ''/repo/a.txt'')])
          (JStr ''/repo'') (JStr ''session-1'') exampleWorld))) = [] \<and>
   filter isCacheWrite (newCalls exampleWorld
     (snd (resolveDecision exampleDeps (JStr ''Read'') (JObj [(''file_path'', JStr ''/repo/a.txt'')])
          (JStr ''/repo'') (JStr ''session-1'') exampleWorld))) = [] \<and>
   filter isLLMCall (newCalls exampleWorld
     (snd (resolveDecision exampleDeps (JStr ''Read'') (JObj [(''file_path'', JStr ''/repo/a.txt'')])
          (JStr ''/repo'') (JStr ''session-1'') exampleWorld))) = []"
  using resolveDecision_fast [of exampleDeps exampleWorld "JStr ''Read''"
      "JObj [(''file_path'', JStr ''/repo/a.txt'')]"
      "\<lparr>fast_decision = FAllow, fast_reason = Some ''Read-only tool''\<rparr>"
      "JStr ''/repo''" "JStr ''session-1''" "Some ''/repo''"]
  by (simp add: example_defs guard_defs orElse_def)

text \<open>
  Claim C3: when the guard and the project root resolver return, the fast tier
  classifies the request as unknown and \<open>getCachedDecision\<close> returns a fresh entry, a
  resolution makes exactly two calls after the guard, the cache read and the log record
  with decision source \<open>cache\<close>: no call of \<open>queryLLM\<close> and none of
  \<open>setCachedDecision\<close>, and the cache is as the guard left it. Where the logger does
  not raise, it returns that entry's decision and reason.
\<close>

theorem resolveDecision_cache_hit:
  assumes guard: "fst (ensurePromptUpToDate d s) = Inr ()"
    and root: "(if truthy cwd then projectAnchor d cwd else Inr None) = Inr projectRoot"
    and fast: "fastRules d (configFile (snd (ensurePromptUpToDate d s))) toolName toolInput = Inr fr"
    and dec: "fast_decision fr = FUnknown"
    and get: "io_fault d (CallGetCachedDecision toolName toolInput projectRoot) = None"
    and hit: "cacheLookup d (snd (ensurePromptUpToDate d s)) toolName toolInput projectRoot = Some c"
  shows "let run = resolveDecision d toolName toolInput cwd sessionId s;
             s1 = snd (ensurePromptUpToDate d s); s' = snd run in
    filter isLLMCall (newCalls s s') = [] \<and>
    filter isCacheWrite (newCalls s s') = [] \<and>
    cacheFile s' = cacheFile s1 \<and>
    newCalls s1 s' =
      [CallGetCachedDecision toolName toolInput projectRoot,
       CallLogDecision
         \<lparr>log_toolName = toolName, log_decision = of_verdict (ce_decision c),
          log_reason = ''Cached: '' @ ce_reason c, log_decisionSource = Cache,
          log_sessionId = sessionId, log_projectRoot = projectRoot\<rparr>] \<and>
    ((\<forall>e. io_fault d (CallLogDecision e) = None) \<longrightarrow>
       fst run = Inr \<lparr>decision = of_verdict (ce_decision c), reason = ce_reason c\<rparr>)"
proof -
  obtain r1 s1 where g1: "ensurePromptUpToDate d s = (r1, s1)"
    by (cases "ensurePromptUpToDate d s")
  from guard_calls [of d s] g1 obtain g where
    g: "calls s1 = calls s @ g" "filter isCacheRead g = []" "filter isCacheWrite g = []"
       "filter isLLMCall g = []"
    by auto
  from guard g1 have r1: "r1 = Inr ()" by simp
  from fast g1 have fast1: "fastRules d (configFile s1) toolName toolInput = Inr fr" by simp
  from hit g1 have hit1: "cacheLookup d s1 toolName toolInput projectRoot = Some c" by simp
  from g1 r1 g root fast1 dec get hit1 show ?thesis
    by (auto simp: resolve_unfold split: if_splits option.splits)
qed

theorem resolveDecision_cache_hit_witness:
  "fst (ensurePromptUpToDate exampleDeps cachedWorld) = Inr () \<and>
   (if truthy (JStr ''/repo'') then projectAnchor exampleDeps (JStr ''/repo'') else Inr None) =
     Inr (Some ''/repo'') \<and>
   fastRules exampleDeps (configFile (snd (ensurePromptUpToDate exampleDeps cachedWorld)))
      (JStr ''Bash'') (JObj [(''command'', JStr ''git push origin main'')]) =
     Inr \<lparr>fast_decision = FUnknown, fast_reason = None\<rparr> \<and>
   fast_decision \<lparr>fast_decision = FUnknown, fast_reason = None\<rparr> = FUnknown \<and>
   io_fault exampleDeps (CallGetCachedDecision (JStr ''Bash'')
      (JObj [(''command'', JStr ''git push origin main'')]) (Some ''/repo'')) = None \<and>
   cacheLookup exampleDeps (snd (ensurePromptUpToDate exampleDeps cachedWorld)) (JStr ''Bash'')
      (JObj [(''command'', JStr ''git push origin main'')]) (Some ''/repo'') = Some repoEntry \<and>
   (\<forall>e. io_fault exampleDeps (CallLogDecision e) = None) \<and>
   fst (resolveDecision exampleDeps (JStr ''Bash'') (JObj [(''command'', JStr ''git push origin main'')])
          (JStr ''/repo'') (JStr ''session-1'') cachedWorld) =
     Inr \<lparr>decision = Deny, reason = ''pushes to main''\<rparr> \<and>
   filter isLLMCall (newCalls cachedWorld
     (snd (resolveDecision exampleDeps (JStr ''Bash'') (JObj [(''command'', JStr ''git push origin main'')])
          (JStr ''/repo'') (JStr ''session-1'') cachedWorld))) = [] \<and>
   filter isCacheWrite (newCalls cachedWorld
     (snd (resolveDecision exampleDeps (JStr ''Bash'') (JObj [(''command'', JStr ''git push origin main'')])
          (JStr ''/repo'') (JStr ''session-1'') cachedWorld))) = []"
  using resolveDecision_cache_hit [of exampleDeps cachedWorld "JStr ''/repo''" "Some ''/repo''"
      "JStr ''Bash''" "JObj [(''command'', JStr ''git push origin main'')]"
      "\<lparr>fast_decision = FUnknown, fast_reason = None\<rparr>" repoEntry "JStr ''session-1''"]
  by (simp add: example_defs guard_defs cacheLookup_def fresh_def)

text \<open>
  Claim C4: a resolution calls \<open>setCachedDecision\<close> exactly when it reaches the LLM
  tier. A run that records no call of \<open>queryLLM\<close> records no cache write and adds no
  entry to the store; a run that returns a decision has written to the cache if and
  only if it called \<open>queryLLM\<close>, and never when the decision is passthrough. When the
  fast tier says unknown, the cache lookup misses and the arbiter answers, the calls
  after the guard are the cache read, the query and the write of the arbiter's decision
  and reason; where the write does not raise, the store then holds that entry under the
  request's key and the log record carries decision source \<open>llm\<close>; where the logger
  does not raise either, the arbiter's decision and reason are returned.
\<close>

theorem resolveDecision_writes_iff_llm:
  "let run = resolveDecision d toolName toolInput cwd sessionId s;
       s1 = snd (ensurePromptUpToDate d s); s' = snd run; new = newCalls s s' in
   (filter isLLMCall new = [] \<longrightarrow>
      filter isCacheWrite new = [] \<and> cacheFile s' = cacheFile s1 \<and>
      set (cacheFile s') \<subseteq> set (cacheFile s)) \<and>
   (\<forall>r. fst run = Inr r \<longrightarrow>
      ((filter isCacheWrite new = []) = (filter isLLMCall new = [])) \<and>
      (decision r = Passthrough \<longrightarrow> filter isCacheWrite new = [])) \<and>
   (fst (ensurePromptUpToDate d s) = Inr () \<and>
    (if truthy cwd then projectAnchor d cwd else Inr None) = Inr projectRoot \<and>
    fastRules d (configFile s1) toolName toolInput = Inr fr \<and>
    fast_decision fr = FUnknown \<and>
    io_fault d (CallGetCachedDecision toolName toolInput projectRoot) = None \<and>
    cacheLookup d s1 toolName toolInput projectRoot = None \<and>
    arbiter d (configFile s1) toolName toolInput projectRoot = Inr l \<longrightarrow>
      take 3 (newCalls s1 s') =
        [CallGetCachedDecision toolName toolInput projectRoot,
         CallQueryLLM toolName toolInput projectRoot,
         CallSetCachedDecision toolName toolInput (llm_decision l) (llm_reason l) projectRoot] \<and>
      (io_fault d (CallSetCachedDecision toolName toolInput (llm_decision l) (llm_reason l)
                     projectRoot) = None \<longrightarrow>
         map_of (cacheFile s') (cacheKey d toolName toolInput projectRoot) =
           Some \<lparr>ce_key = cacheKey d toolName toolInput projectRoot,
                 ce_decision = llm_decision l, ce_reason = llm_reason l,
                 ce_timestamp = now s, ce_toolName = toolName,
                 ce_toolInput = Some toolInput, ce_projectRoot = projectRoot\<rparr> \<and>
         drop 3 (newCalls s1 s') =
           [CallLogDecision
              \<lparr>log_toolName = toolName, log_decision = of_verdict (llm_decision l),
               log_reason = llm_reason l, log_decisionSource = Llm,
               log_sessionId = sessionId, log_projectRoot = projectRoot\<rparr>] \<and>
         ((\<forall>e. io_fault d (CallLogDecision e) = None) \<longrightarrow>
            fst run = Inr \<lparr>decision = of_verdict (llm_decision l), reason = llm_reason l\<rparr>)))"
proof -
  have a: "filter isLLMCall (newCalls s (snd (resolveDecision d toolName toolInput cwd sessionId s))) = []
        \<Longrightarrow> set (cacheFile (snd (resolveDecision d toolName toolInput cwd sessionId s))) \<subseteq> set (cacheFile s)"
    using resolveDecision_no_llm [of s d toolName toolInput cwd sessionId] guard_cache [of d s]
    by auto
  show ?thesis
    unfolding Let_def
    using resolveDecision_no_llm [of s d toolName toolInput cwd sessionId]
      resolveDecision_returned [of d toolName toolInput cwd sessionId s] a
      resolveDecision_llm_tier [of d s cwd projectRoot toolName toolInput fr l sessionId]
    by (simp add: Let_def)
qed

theorem resolveDecision_writes_iff_llm_witness:
  "fst (ensurePromptUpToDate exampleDeps settledWorld) = Inr () \<and>
   (if truthy (JStr ''/repo'') then projectAnchor exampleDeps (JStr ''/repo'') else Inr None) =
     Inr (Some ''/repo'') \<and>
   fastRules exampleDeps (configFile (snd (ensurePromptUpToDate exampleDeps settledWorld)))
      (JStr ''Bash'') (JObj [(''command'', JStr ''git push origin feature/foo'')]) =
     Inr \<lparr>fast_decision = FUnknown, fast_reason = None\<rparr> \<and>
   fast_decision \<lparr>fast_decision = FUnknown, fast_reason = None\<rparr> = FUnknown \<and>
   io_fault exampleDeps (CallGetCachedDecision (JStr ''Bash'')
      (JObj [(''command'', JStr ''git push origin feature/foo'')]) (Some ''/repo'')) = None \<and>
   cacheLookup exampleDeps (snd (ensurePromptUpToDate exampleDeps settledWorld)) (JStr ''Bash'')
      (JObj [(''command'', JStr ''git push origin feature/foo'')]) (Some ''/repo'') = None \<and>
   arbiter exampleDeps (configFile (snd (ensurePromptUpToDate exampleDeps settledWorld)))
      (JStr ''Bash'') (JObj [(''command'', JStr ''git push origin feature/foo'')]) (Some ''/repo'') =
     Inr \<lparr>llm_decision = VAllow, llm_reason = ''non-protected branch''\<rparr> \<and>
   io_fault exampleDeps (CallSetCachedDecision (JStr ''Bash'')
      (JObj [(''command'', JStr ''git push origin feature/foo'')]) VAllow ''non-protected branch''
      (Some ''/repo'')) = None \<and>
   (\<forall>e. io_fault exampleDeps (CallLogDecision e) = None) \<and>
   fst (resolveDecision exampleDeps (JStr ''Bash'')
          (JObj [(''command'', JStr ''git push origin feature/foo'')])
          (JStr ''/repo'') (JStr ''session-1'') settledWorld) =
     Inr \<lparr>decision = Allow, reason = ''non-protected branch''\<rparr> \<and>
   map_of (cacheFile (snd (resolveDecision exampleDeps (JStr ''Bash'')
          (JObj [(''command'', JStr ''git push origin feature/foo'')])
          (JStr ''/repo'') (JStr ''session-1'') settledWorld))) ''Bash|/repo'' =
     Some \<lparr>ce_key = ''Bash|/repo'', ce_decision = VAllow, ce_reason = ''non-protected branch'',
           ce_timestamp = 1000, ce_toolName = JStr ''Bash'',
           ce_toolInput = Some (JObj [(''command'', JStr ''git push origin feature/foo'')]),
           ce_projectRoot = Some ''/repo''\<rparr> \<and>
   filter isCacheWrite (newCalls settledWorld
     (snd (resolveDecision exampleDeps (JStr ''Bash'')
          (JObj [(''command'', JStr ''git push origin feature/foo'')])
          (JStr ''/repo'') (JStr ''session-1'') settledWorld))) \<noteq> [] \<and>
   filter isLLMCall (newCalls settledWorld
     (snd (resolveDecision exampleDeps (JStr ''Bash'')
          (JObj [(''command'', JStr ''git push origin feature/foo'')])
          (JStr ''/repo'') (JStr ''session-1'') settledWorld))) \<noteq> []"
  using resolveDecision_writes_iff_llm [of exampleDeps "JStr ''Bash''"
      "JObj [(''command'', JStr ''git push origin feature/foo'')]" "JStr ''/repo''"
      "JStr ''session-1''" settledWorld "Some ''/repo''"
      "\<lparr>fast_decision = FUnknown, fast_reason = None\<rparr>"
      "\<lparr>llm_decision = VAllow, llm_reason = ''non-protected branch''\<rparr>"]
  by (simp add: example_defs guard_defs cacheLookup_def fresh_def resolve_unfold storeEntry_def)

section \<open>The PermissionRequest handler and the permission command\<close>

lemmas request_defs = pushRequestText_def pushRequest_def quoted_def faultyDeps_def

lemmas parse_defs =
  PermissionRequestInputSchema_parse_def field_def createPermissionDenyResponse_def
  createPermissionAllowResponse_def optStr_def

text \<open>
  Claim C5: for every raw input that \<open>PermissionRequestInputSchema\<close> rejects,
  \<open>handlePermissionRequest\<close> returns the deny response with the message
  \<open>Invalid permission request input\<close>, and so neither an allow response nor \<open>null\<close>;
  it does so before the guard or any tier runs, leaving the process state untouched.
\<close>

theorem handlePermissionRequest_invalid:
  assumes "PermissionRequestInputSchema_parse rawInput = None"
  shows "handlePermissionRequest d rawInput s =
           (Inr (Some \<lparr>behavior = VDeny, message = Some ''Invalid permission request input''\<rparr>), s)"
  using assms by (simp add: handlePermissionRequest_def ret_def createPermissionDenyResponse_def)

theorem handlePermissionRequest_invalid_witness:
  "PermissionRequestInputSchema_parse (JObj [(''tool_name'', JStr ''Bash'')]) = None \<and>
   handlePermissionRequest exampleDeps (JObj [(''tool_name'', JStr ''Bash'')]) exampleWorld =
     (Inr (Some \<lparr>behavior = VDeny, message = Some ''Invalid permission request input''\<rparr>),
      exampleWorld)"
  using handlePermissionRequest_invalid [of "JObj [(''tool_name'', JStr ''Bash'')]" exampleDeps exampleWorld]
  by (simp add: parse_defs)

text \<open>
  Claim C6, as stated: every malformed input, unparseable or not matching the schema,
  ends the \<open>permission\<close> command with a deny response and a non-zero exit code. Input
  that is valid JSON but not a permission request is turned into an ordinary deny
  response inside \<open>handlePermissionRequest\<close>; the command prints it and returns, and
  the process ends with code 0. The input \<open>{}\<close> is such a request.
\<close>

theorem permissionAction_schema_mismatch_counterexample:
  "JSON_parse exampleDeps ''{}'' = Inr (JObj []) \<and>
   PermissionRequestInputSchema_parse (JObj []) = None \<and>
   fst (permissionAction exampleDeps ''{}'' exampleWorld) =
     \<lparr>stdout = [\<lparr>behavior = VDeny, message = Some ''Invalid permission request input''\<rparr>],
      exitCode = 0\<rparr>"
  by (simp add: exampleDeps_def parse_defs permissionAction_def bindE_def lift_def
      handlePermissionRequest_def ret_def)

text \<open>
  Claim C6, amended: input that is not parseable JSON makes the command print a deny
  response (\<open>Hook error: ...\<close>) and exit with code 1; input that parses but does not
  match the request schema makes it print the deny response
  \<open>Invalid permission request input\<close> and end with code 0; every response that
  \<open>handlePermissionRequest\<close> returns, a deny for a well-formed request among them, is
  printed with code 0; and a fault raised while the request is handled ends in a deny
  response with code 1.
\<close>

theorem permissionAction_exit_codes:
  "(JSON_parse d rawInput = Inl e \<longrightarrow>
      permissionAction d rawInput s =
        (\<lparr>stdout = [\<lparr>behavior = VDeny, message = Some (''Hook error: '' @ errorMessage e)\<rparr>],
          exitCode = 1\<rparr>, s)) \<and>
   (JSON_parse d rawInput = Inr v \<and> PermissionRequestInputSchema_parse v = None \<longrightarrow>
      permissionAction d rawInput s =
        (\<lparr>stdout = [\<lparr>behavior = VDeny, message = Some ''Invalid permission request input''\<rparr>],
          exitCode = 0\<rparr>, s)) \<and>
   (JSON_parse d rawInput = Inr v \<and> handlePermissionRequest d v s = (Inr (Some r), s') \<longrightarrow>
      permissionAction d rawInput s = (\<lparr>stdout = [r], exitCode = 0\<rparr>, s')) \<and>
   (JSON_parse d rawInput = Inr v \<and> handlePermissionRequest d v s = (Inl e, s') \<longrightarrow>
      permissionAction d rawInput s =
        (\<lparr>stdout = [\<lparr>behavior = VDeny, message = Some (''Hook error: '' @ errorMessage e)\<rparr>],
          exitCode = 1\<rparr>, s'))"
  by (simp add: permissionAction_def bindE_def lift_def handlePermissionRequest_def ret_def
      createPermissionDenyResponse_def)

theorem permissionAction_exit_codes_witness:
  "JSON_parse exampleDeps ''not json'' = Inl (JsError ''Unexpected token'') \<and>
   fst (permissionAction exampleDeps ''not json'' exampleWorld) =
     \<lparr>stdout = [\<lparr>behavior = VDeny, message = Some ''Hook error: Unexpected token''\<rparr>],
      exitCode = 1\<rparr> \<and>
   JSON_parse exampleDeps ''{}'' = Inr (JObj []) \<and>
   PermissionRequestInputSchema_parse (JObj []) = None \<and>
   fst (permissionAction exampleDeps ''{}'' exampleWorld) =
     \<lparr>stdout = [\<lparr>behavior = VDeny, message = Some ''Invalid permission request input''\<rparr>],
      exitCode = 0\<rparr> \<and>
   JSON_parse exampleDeps pushRequestText = Inr pushRequest \<and>
   fst (handlePermissionRequest exampleDeps pushRequest cachedWorld) =
     Inr (Some \<lparr>behavior = VDeny, message = Some ''pushes to main''\<rparr>) \<and>
   fst (permissionAction exampleDeps pushRequestText cachedWorld) =
     \<lparr>stdout = [\<lparr>behavior = VDeny, message = Some ''pushes to main''\<rparr>], exitCode = 0\<rparr> \<and>
   JSON_parse faultyDeps pushRequestText = Inr pushRequest \<and>
   fst (handlePermissionRequest faultyDeps pushRequest settledWorld) =
     Inl (JsError ''socket hang up'') \<and>
   fst (permissionAction faultyDeps pushRequestText settledWorld) =
     \<lparr>stdout = [\<lparr>behavior = VDeny, message = Some ''Hook error: socket hang up''\<rparr>],
      exitCode = 1\<rparr>"
proof -
  have h: "fst (handlePermissionRequest exampleDeps pushRequest cachedWorld) =
        Inr (Some \<lparr>behavior = VDeny, message = Some ''pushes to main''\<rparr>)"
       "fst (handlePermissionRequest faultyDeps pushRequest settledWorld) =
        Inl (JsError ''socket hang up'')"
    by (simp_all add: example_defs request_defs guard_defs parse_defs handlePermissionRequest_def
        resolve_unfold cacheLookup_def fresh_def)
  have p: "JSON_parse exampleDeps ''not json'' = Inl (JsError ''Unexpected token'')"
          "JSON_parse exampleDeps ''{}'' = Inr (JObj [])"
          "PermissionRequestInputSchema_parse (JObj []) = None"
          "JSON_parse exampleDeps pushRequestText = Inr pushRequest"
          "JSON_parse faultyDeps pushRequestText = Inr pushRequest"
    by (simp_all add: exampleDeps_def request_defs parse_defs)
  show ?thesis
    using
      permissionAction_exit_codes [of exampleDeps "''not json''" "JsError ''Unexpected token''"
        exampleWorld JNull createPermissionAllowResponse exampleWorld]
      permissionAction_exit_codes [of exampleDeps "''{}''" NonError exampleWorld "JObj []"
        createPermissionAllowResponse exampleWorld]
      permissionAction_exit_codes [of exampleDeps pushRequestText NonError cachedWorld pushRequest
        "\<lparr>behavior = VDeny, message = Some ''pushes to main''\<rparr>"
        "snd (handlePermissionRequest exampleDeps pushRequest cachedWorld)"]
      permissionAction_exit_codes [of faultyDeps pushRequestText "JsError ''socket hang up''"
        settledWorld pushRequest createPermissionAllowResponse
        "snd (handlePermissionRequest faultyDeps pushRequest settledWorld)"]
    by (simp add: errorMessage_def prod_eq_iff h p)
qed

text \<open>
  Claim C7: whatever the collaborators do, the \<open>permission\<close> command ends in one of
  three ways. If any stage of its \<open>try\<close> block raises (the JSON parser, the guard's
  load, save or clear, the project root resolver, the fast tier, the cache, the arbiter
  or the logger), it prints one deny response carrying \<open>Hook error:\<close> and the fault's
  message and exits with code 1; if the handler returns a response it prints exactly
  that response; and it prints nothing only when the handler returned \<open>null\<close>, the
  passthrough, with exit code 0. An allow response is printed only when the input
  parsed, matched the schema and \<open>resolveDecision\<close> returned allow for it.
\<close>

theorem permissionAction_fail_closed:
  "let run = bindE (lift (JSON_parse d rawInput)) (handlePermissionRequest d) s;
       out = fst (permissionAction d rawInput s) in
   (case fst run of
      Inl e \<Rightarrow>
        stdout out = [\<lparr>behavior = VDeny, message = Some (''Hook error: '' @ errorMessage e)\<rparr>] \<and>
        exitCode out = 1
    | Inr None \<Rightarrow> stdout out = [] \<and> exitCode out = 0
    | Inr (Some r) \<Rightarrow> stdout out = [r] \<and> exitCode out = 0) \<and>
   ((\<exists>r. stdout out = [r]) \<or> (stdout out = [] \<and> exitCode out = 0 \<and> fst run = Inr None)) \<and>
   (\<forall>r. stdout out = [r] \<and> behavior r = VAllow \<longrightarrow>
      (\<exists>v input res s1.
         JSON_parse d rawInput = Inr v \<and>
         PermissionRequestInputSchema_parse v = Some input \<and>
         resolveDecision d (JStr (req_tool_name input)) (JObj (req_tool_input input))
           (optStr (req_cwd input)) (optStr (req_session_id input)) s = (Inr res, s1) \<and>
         decision res = Allow))"
proof -
  obtain r0 s0 where run: "bindE (lift (JSON_parse d rawInput)) (handlePermissionRequest d) s = (r0, s0)"
    by (cases "bindE (lift (JSON_parse d rawInput)) (handlePermissionRequest d) s")
  have a: "case r0 of
      Inl e \<Rightarrow>
        stdout (fst (permissionAction d rawInput s)) =
          [\<lparr>behavior = VDeny, message = Some (''Hook error: '' @ errorMessage e)\<rparr>] \<and>
        exitCode (fst (permissionAction d rawInput s)) = 1
    | Inr None \<Rightarrow> stdout (fst (permissionAction d rawInput s)) = [] \<and>
        exitCode (fst (permissionAction d rawInput s)) = 0
    | Inr (Some r) \<Rightarrow> stdout (fst (permissionAction d rawInput s)) = [r] \<and>
        exitCode (fst (permissionAction d rawInput s)) = 0"
    using run by (simp add: permissionAction_def split: sum.splits option.splits)
  have b: "(\<exists>r. stdout (fst (permissionAction d rawInput s)) = [r]) \<or>
      (stdout (fst (permissionAction d rawInput s)) = [] \<and>
       exitCode (fst (permissionAction d rawInput s)) = 0 \<and> r0 = Inr None)"
    using a by (auto split: sum.splits option.splits)
  have c: "\<exists>v input res s1.
         JSON_parse d rawInput = Inr v \<and>
         PermissionRequestInputSchema_parse v = Some input \<and>
         resolveDecision d (JStr (req_tool_name input)) (JObj (req_tool_input input))
           (optStr (req_cwd input)) (optStr (req_session_id input)) s = (Inr res, s1) \<and>
         decision res = Allow"
    if r: "stdout (fst (permissionAction d rawInput s)) = [r]" "behavior r = VAllow" for r
  proof (cases "JSON_parse d rawInput")
    case (Inl e)
    with r show ?thesis
      by (auto simp: permissionAction_def bindE_def lift_def)
  next
    case (Inr v)
    note v = this
    show ?thesis
    proof (cases "PermissionRequestInputSchema_parse v")
      case None
      with r v show ?thesis
        by (auto simp: permissionAction_def bindE_def lift_def handlePermissionRequest_def ret_def
            createPermissionDenyResponse_def)
    next
      case (Some input)
      obtain r2 s2 where res: "resolveDecision d (JStr (req_tool_name input))
          (JObj (req_tool_input input)) (optStr (req_cwd input)) (optStr (req_session_id input)) s
          = (r2, s2)"
        by (cases "resolveDecision d (JStr (req_tool_name input))
          (JObj (req_tool_input input)) (optStr (req_cwd input)) (optStr (req_session_id input)) s")
      with r v Some show ?thesis
        by (cases r2)
           (auto simp: permissionAction_def bindE_def lift_def handlePermissionRequest_def ret_def
            createPermissionDenyResponse_def createPermissionAllowResponse_def split: if_splits)
    qed
  qed
  from a b c show ?thesis
    unfolding Let_def run fst_conv by blast
qed

theorem permissionAction_fail_closed_witness:
  "fst (bindE (lift (JSON_parse faultyDeps pushRequestText)) (handlePermissionRequest faultyDeps)
          settledWorld) = Inl (JsError ''socket hang up'') \<and>
   fst (permissionAction faultyDeps pushRequestText settledWorld) =
     \<lparr>stdout = [\<lparr>behavior = VDeny, message = Some ''Hook error: socket hang up''\<rparr>],
      exitCode = 1\<rparr> \<and>
   stdout (fst (permissionAction exampleDeps pushRequestText settledWorld)) =
     [\<lparr>behavior = VAllow, message = None\<rparr>] \<and>
   behavior \<lparr>behavior = VAllow, message = None\<rparr> = VAllow \<and>
   JSON_parse exampleDeps pushRequestText = Inr pushRequest \<and>
   (\<exists>input. PermissionRequestInputSchema_parse pushRequest = Some input \<and>
      fst (resolveDecision exampleDeps (JStr (req_tool_name input)) (JObj (req_tool_input input))
             (optStr (req_cwd input)) (optStr (req_session_id input)) settledWorld) =
        Inr \<lparr>decision = Allow, reason = ''non-protected branch''\<rparr>)"
  using permissionAction_fail_closed [of faultyDeps pushRequestText settledWorld]
    permissionAction_fail_closed [of exampleDeps pushRequestText settledWorld]
  by (simp add: example_defs request_defs guard_defs parse_defs handlePermissionRequest_def
      resolve_unfold cacheLookup_def fresh_def permissionAction_def errorMessage_def storeEntry_def)

section \<open>The PreToolUse handler\<close>

lemma getProp_defined:
  "rawInput \<noteq> JNull \<Longrightarrow> rawInput \<noteq> JUndefined \<Longrightarrow> \<exists>v. getProp rawInput name = Inr v"
  by (cases rawInput) (auto split: option.splits)

lemma parse_needs_tool_input:
  assumes "getProp rawInput ''tool_input'' = Inr ti" and "\<not> truthy ti"
  shows "PermissionRequestInputSchema_parse rawInput = None"
proof (cases rawInput)
  case (JObj kvs)
  with assms have "field kvs ''tool_input'' = ti"
    by (auto simp: field_def split: option.splits)
  moreover from assms(2) have "zRecord ti = None"
    by (cases ti) auto
  ultimately show ?thesis
    using JObj by (simp add: PermissionRequestInputSchema_parse_def split: Option.bind_splits)
qed (simp_all add: PermissionRequestInputSchema_parse_def)

text \<open>
  Claim C10, as stated: every raw input without a \<open>tool_name\<close> is answered with the
  deny response. The handler reads \<open>rawInput.tool_name\<close> under a cast, before any
  check; on \<open>null\<close>, which is what the JSON text \<open>null\<close> parses to, that read raises a
  \<open>TypeError\<close>, which \<open>handlePreToolUse\<close> does not catch, and no response is returned.
\<close>

theorem handlePreToolUse_null_counterexample:
  "fst (handlePreToolUse exampleDeps JNull exampleWorld) = Inl (typeError ''null'' ''tool_name'') \<and>
   fst (handlePreToolUse exampleDeps JNull exampleWorld) \<noteq>
     Inr (Some \<lparr>permissionDecision = VDeny,
                 permissionDecisionReason = ''Invalid PreToolUse input: missing tool_name''\<rparr>)"
  by (simp add: handlePreToolUse_def bindE_def lift_def)

text \<open>
  Claim C10, amended: on every raw input other than \<open>null\<close> and \<open>undefined\<close> the four
  property reads succeed, and then: when \<open>tool_name\<close> reads as \<open>undefined\<close> (the field
  is missing), the empty string or any other falsy value, \<open>handlePreToolUse\<close> returns
  the deny response with reason \<open>Invalid PreToolUse input: missing tool_name\<close> and
  touches nothing; when \<open>tool_name\<close> is truthy and \<open>tool_input\<close> is missing or falsy,
  it resolves the request with the empty object in its place and answers with the
  resolver's decision; and \<open>handlePermissionRequest\<close>, on an input whose \<open>tool_input\<close>
  is missing or falsy, returns the deny response \<open>Invalid permission request input\<close>.
  On \<open>null\<close> and \<open>undefined\<close>, \<open>handlePreToolUse\<close> raises the \<open>TypeError\<close> of the
  first read and returns no response, while \<open>handlePermissionRequest\<close> returns its
  deny response.
\<close>

theorem handlePreToolUse_missing_fields:
  "(rawInput \<noteq> JNull \<and> rawInput \<noteq> JUndefined \<longrightarrow>
      (\<exists>toolName ti cwd sessionId.
         getProp rawInput ''tool_name'' = Inr toolName \<and>
         getProp rawInput ''tool_input'' = Inr ti \<and>
         getProp rawInput ''cwd'' = Inr cwd \<and>
         getProp rawInput ''session_id'' = Inr sessionId \<and>
         (\<not> truthy toolName \<longrightarrow>
            handlePreToolUse d rawInput s =
              (Inr (Some \<lparr>permissionDecision = VDeny,
                           permissionDecisionReason =
                             ''Invalid PreToolUse input: missing tool_name''\<rparr>), s)) \<and>
         (truthy toolName \<and> \<not> truthy ti \<longrightarrow>
            handlePreToolUse d rawInput s =
              (case resolveDecision d toolName (JObj []) cwd sessionId s of
                 (Inl e, s') \<Rightarrow> (Inl e, s')
               | (Inr result, s') \<Rightarrow>
                   (Inr (if decision result = Allow then
                           Some \<lparr>permissionDecision = VAllow,
                                 permissionDecisionReason = reason result\<rparr>
                         else if decision result = Deny then
                           Some \<lparr>permissionDecision = VDeny,
                                 permissionDecisionReason = reason result\<rparr>
                         else None), s'))) \<and>
         (\<not> truthy ti \<longrightarrow>
            handlePermissionRequest d rawInput s =
              (Inr (Some \<lparr>behavior = VDeny,
                           message = Some ''Invalid permission request input''\<rparr>), s)))) \<and>
   handlePreToolUse d JNull s = (Inl (typeError ''null'' ''tool_name''), s) \<and>
   handlePreToolUse d JUndefined s = (Inl (typeError ''undefined'' ''tool_name''), s) \<and>
   handlePermissionRequest d JNull s =
     (Inr (Some \<lparr>behavior = VDeny, message = Some ''Invalid permission request input''\<rparr>), s) \<and>
   handlePermissionRequest d JUndefined s =
     (Inr (Some \<lparr>behavior = VDeny, message = Some ''Invalid permission request input''\<rparr>), s)"
proof (intro conjI impI)
  assume nn: "rawInput \<noteq> JNull \<and> rawInput \<noteq> JUndefined"
  then obtain toolName ti cwd sessionId where
    g: "getProp rawInput ''tool_name'' = Inr toolName"
       "getProp rawInput ''tool_input'' = Inr ti"
       "getProp rawInput ''cwd'' = Inr cwd"
       "getProp rawInput ''session_id'' = Inr sessionId"
    using getProp_defined [of rawInput] by metis
  have a: "handlePreToolUse d rawInput s =
              (Inr (Some \<lparr>permissionDecision = VDeny,
                           permissionDecisionReason =
                             ''Invalid PreToolUse input: missing tool_name''\<rparr>), s)"
    if "\<not> truthy toolName"
    using that g by (simp add: handlePreToolUse_def bindE_def lift_def ret_def)
  have b: "handlePreToolUse d rawInput s =
              (case resolveDecision d toolName (JObj []) cwd sessionId s of
                 (Inl e, s') \<Rightarrow> (Inl e, s')
               | (Inr result, s') \<Rightarrow>
                   (Inr (if decision result = Allow then
                           Some \<lparr>permissionDecision = VAllow,
                                 permissionDecisionReason = reason result\<rparr>
                         else if decision result = Deny then
                           Some \<lparr>permissionDecision = VDeny,
                                 permissionDecisionReason = reason result\<rparr>
                         else None), s'))"
    if "truthy toolName \<and> \<not> truthy ti"
    using that g
    by (auto simp: handlePreToolUse_def bindE_def lift_def ret_def split: prod.splits sum.splits)
  have c: "handlePermissionRequest d rawInput s =
              (Inr (Some \<lparr>behavior = VDeny,
                           message = Some ''Invalid permission request input''\<rparr>), s)"
    if "\<not> truthy ti"
    using that g parse_needs_tool_input [of rawInput ti]
    by (simp add: handlePermissionRequest_def ret_def createPermissionDenyResponse_def)
  from g a b c show "\<exists>toolName ti cwd sessionId.
         getProp rawInput ''tool_name'' = Inr toolName \<and>
         getProp rawInput ''tool_input'' = Inr ti \<and>
         getProp rawInput ''cwd'' = Inr cwd \<and>
         getProp rawInput ''session_id'' = Inr sessionId \<and>
         (\<not> truthy toolName \<longrightarrow>
            handlePreToolUse d rawInput s =
              (Inr (Some \<lparr>permissionDecision = VDeny,
                           permissionDecisionReason =
                             ''Invalid PreToolUse input: missing tool_name''\<rparr>), s)) \<and>
         (truthy toolName \<and> \<not> truthy ti \<longrightarrow>
            handlePreToolUse d rawInput s =
              (case resolveDecision d toolName (JObj []) cwd sessionId s of
                 (Inl e, s') \<Rightarrow> (Inl e, s')
               | (Inr result, s') \<Rightarrow>
                   (Inr (if decision result = Allow then
                           Some \<lparr>permissionDecision = VAllow,
                                 permissionDecisionReason = reason result\<rparr>
                         else if decision result = Deny then
                           Some \<lparr>permissionDecision = VDeny,
                                 permissionDecisionReason = reason result\<rparr>
                         else None), s'))) \<and>
         (\<not> truthy ti \<longrightarrow>
            handlePermissionRequest d rawInput s =
              (Inr (Some \<lparr>behavior = VDeny,
                           message = Some ''Invalid permission request input''\<rparr>), s))"
    by blast
qed (simp_all add: handlePreToolUse_def bindE_def lift_def handlePermissionRequest_def ret_def
     createPermissionDenyResponse_def PermissionRequestInputSchema_parse_def)

theorem handlePreToolUse_missing_fields_witness:
  "JObj [(''tool_input'', JObj []), (''tool_name'', JStr [])] \<noteq> JNull \<and>
   JObj [(''tool_input'', JObj []), (''tool_name'', JStr [])] \<noteq> JUndefined \<and>
   getProp (JObj [(''tool_input'', JObj []), (''tool_name'', JStr [])]) ''tool_name'' = Inr (JStr []) \<and>
   \<not> truthy (JStr []) \<and>
   handlePreToolUse exampleDeps (JObj [(''tool_input'', JObj []), (''tool_name'', JStr [])]) exampleWorld =
     (Inr (Some \<lparr>permissionDecision = VDeny,
                  permissionDecisionReason = ''Invalid PreToolUse input: missing tool_name''\<rparr>),
      exampleWorld) \<and>
   JObj [(''hook_event_name'', JStr ''PermissionRequest''), (''tool_name'', JStr ''Read'')] \<noteq> JNull \<and>
   JObj [(''hook_event_name'', JStr ''PermissionRequest''), (''tool_name'', JStr ''Read'')] \<noteq> JUndefined \<and>
   getProp (JObj [(''hook_event_name'', JStr ''PermissionRequest''), (''tool_name'', JStr ''Read'')])
     ''tool_name'' = Inr (JStr ''Read'') \<and>
   truthy (JStr ''Read'') \<and>
   getProp (JObj [(''hook_event_name'', JStr ''PermissionRequest''), (''tool_name'', JStr ''Read'')])
     ''tool_input'' = Inr JUndefined \<and>
   \<not> truthy JUndefined \<and>
   fst (resolveDecision exampleDeps (JStr ''Read'') (JObj []) JUndefined JUndefined exampleWorld) =
     Inr \<lparr>decision = Allow, reason = ''Read-only tool''\<rparr> \<and>
   fst (handlePreToolUse exampleDeps
          (JObj [(''hook_event_name'', JStr ''PermissionRequest''), (''tool_name'', JStr ''Read'')])
          exampleWorld) =
     Inr (Some \<lparr>permissionDecision = VAllow, permissionDecisionReason = ''Read-only tool''\<rparr>) \<and>
   handlePermissionRequest exampleDeps
     (JObj [(''hook_event_name'', JStr ''PermissionRequest''), (''tool_name'', JStr ''Read'')])
     exampleWorld =
     (Inr (Some \<lparr>behavior = VDeny, message = Some ''Invalid permission request input''\<rparr>),
      exampleWorld)"
  using
    handlePreToolUse_missing_fields [of "JObj [(''tool_input'', JObj []), (''tool_name'', JStr [])]"
      exampleDeps exampleWorld]
    handlePreToolUse_missing_fields [of
      "JObj [(''hook_event_name'', JStr ''PermissionRequest''), (''tool_name'', JStr ''Read'')]"
      exampleDeps exampleWorld]
  by (simp add: example_defs guard_defs resolve_unfold orElse_def split: prod.splits)

end
